theory Spec2Isabelle
  imports Main
begin

section \<open>Values and text helpers\<close>

text \<open>
  The items of a multi-valued field, as \<open>to_string\<close> inside
  \<open>SearchCommand._encode_list\<close> tells them apart: a \<open>bool\<close>, a string
  (\<open>basestring\<close>), a number, or any other object. Numbers are the integers (floats are
  left out of the model); an object of another type is given by the text \<open>repr\<close> returns
  for it.
\<close>

datatype item = IBool bool | IStr string | IInt int | IOther string

definition digit_char :: "nat \<Rightarrow> char" where
  "digit_char d = ''0123456789'' ! d"

function str_of_nat :: "nat \<Rightarrow> string" where
  "str_of_nat n = (if n < 10 then [digit_char n] else str_of_nat (n div 10) @ [digit_char (n mod 10)])"
  by pat_completeness auto
termination
  by (relation "measure (\<lambda>n. n)") auto

declare str_of_nat.simps [simp del]

definition str_of_int :: "int \<Rightarrow> string" where
  "str_of_int i = (if i < 0 then CHR ''-'' # str_of_nat (nat (- i)) else str_of_nat (nat i))"

text \<open>\<open>sep.join(xs)\<close> of Python.\<close>

fun join :: "string \<Rightarrow> string list \<Rightarrow> string" where
  "join sep [] = []"
| "join sep [x] = x"
| "join sep (x # y # ys) = x @ sep @ join sep (y # ys)"

text \<open>\<open>item.replace('$', '$$')\<close>.\<close>

definition replace_dollar :: "string \<Rightarrow> string" where
  "replace_dollar s = concat (map (\<lambda>c. if c = CHR ''$'' then ''$$'' else [c]) s)"

section \<open>Multi-value fields: \<open>_encode_list\<close> and \<open>_decode_list\<close>\<close>

text \<open>
  \<^verbatim>\<open>
  def to_string(item):
      if isinstance(item, bool):
          return 't' if item else 'f'
      if isinstance(item, (basestring, Number)):
          return unicode(item)
      return repr(item)
  \<close>
\<close>

fun to_string :: "item \<Rightarrow> string" where
  "to_string (IBool b) = (if b then ''t'' else ''f'')"
| "to_string (IStr s) = s"
| "to_string (IInt i) = str_of_int i"
| "to_string (IOther r) = r"

text \<open>
  \<open>itertools.imap\<close> (Python 2) returns a one-shot iterator: an element that has been
  pulled is gone, and every wrapper built over the same iterator object pulls from the same
  remaining elements. An iterator is modelled by the elements it has not yielded yet;
  \<open>drain\<close> is what a consumer that runs to \<open>StopIteration\<close> (\<open>str.join\<close>) does: it
  receives all remaining elements and leaves the iterator empty.
\<close>

datatype 'a iter = Iter (pending: "'a list")

definition imap :: "('a \<Rightarrow> 'b) \<Rightarrow> 'a iter \<Rightarrow> 'b iter" where
  "imap f it = Iter (map f (pending it))"

definition drain :: "'a iter \<Rightarrow> 'a list \<times> 'a iter" where
  "drain it = (pending it, Iter [])"

text \<open>
  \<^verbatim>\<open>
  if len(value) == 0:
      return None, None
  if len(value) == 1:
      return to_string(value[0]), None
  value = imap(lambda item: (item, item.replace('$', '$$')), imap(lambda item: to_string(item), value))
  return '\n'.join(imap(lambda item: item[0], value)), '$' + '$;$'.join(imap(lambda item: item[1], value)) + '$'
  \<close>
  The tuple of the last line is evaluated left to right. Both joins read the one iterator
  bound to \<open>value\<close>: the first join drains it, the second join reads what is left.
  The result is the pair (base column, companion column), \<open>None\<close> for Python's \<open>None\<close>.
\<close>

definition encode_list :: "item list \<Rightarrow> string option \<times> string option" where
  "encode_list value =
     (if length value = 0 then (None, None)
      else if length value = 1 then (Some (to_string (value ! 0)), None)
      else
        let value1 = imap (\<lambda>item. (item, replace_dollar item)) (imap to_string (Iter value));
            (items_a, value2) = drain value1;
            base = join [CHR 0x0A] (map fst items_a);
            (items_b, value3) = drain value2;
            mv = ''$'' @ join ''$;$'' (map snd items_b) @ ''$''
        in (Some base, Some mv))"

text \<open>
  \<^verbatim>\<open>
  while i < len(mv):
      if not in_value:
          if mv[i] == '$':
              in_value = True
          elif mv[i] != ';':
              return None
      else:
          if mv[i] == '$' and i + 1 < len(mv) and mv[i + 1] == '$':
              value += '$'
              i += 1
          elif mv[i] == '$':
              in_value = False
              l.append(value)
              value = ''
          else:
              value += mv[i]
      i += 1
  return l
  \<close>
  The loop runs over the characters from index \<open>i\<close> on; the model recurses on that
  suffix, \<open>c\<close> being \<open>mv[i]\<close> and \<open>rest\<close> the characters after it.
\<close>

fun decode_loop :: "string \<Rightarrow> bool \<Rightarrow> string \<Rightarrow> string list \<Rightarrow> string list option" where
  "decode_loop [] in_value value l = Some l"
| "decode_loop (c # rest) in_value value l =
     (if \<not> in_value then
        (if c = CHR ''$'' then decode_loop rest True value l
         else if c \<noteq> CHR '';'' then None
         else decode_loop rest in_value value l)
      else
        (if c = CHR ''$'' \<and> rest \<noteq> [] \<and> hd rest = CHR ''$''
           then decode_loop (tl rest) in_value (value @ ''$'') l
         else if c = CHR ''$'' then decode_loop rest False [] (l @ [value])
         else decode_loop rest in_value (value @ [c]) l))"

definition decode_list :: "string \<Rightarrow> string list option" where
  "decode_list mv = (if length mv = 0 then None else decode_loop mv False [] [])"

text \<open>
  The companion text the specification describes: every element between two \<open>$\<close>, its
  own \<open>$\<close> doubled, and \<open>;\<close> between the closing \<open>$\<close> of one element and the
  opening \<open>$\<close> of the next. It follows the specification's words, not the code.
\<close>

definition spec_companion :: "string list \<Rightarrow> string" where
  "spec_companion xs = ''$'' @ join ''$;$'' (map replace_dollar xs) @ ''$''"

text \<open>Encoding a field and decoding its companion column again.\<close>

definition decode_encoded :: "item list \<Rightarrow> string list option" where
  "decode_encoded value = (case snd (encode_list value) of None \<Rightarrow> None | Some mv \<Rightarrow> decode_list mv)"

section \<open>Streams\<close>

text \<open>
  The exceptions the model needs, and the values of a chunk's metadata: what
  \<open>json.loads\<close> returns and \<open>json.dumps\<close> accepts. An \<open>OrderedDict\<close> is the list
  of its items in insertion order. \<open>json.loads\<close> and \<open>json.dumps\<close> themselves are
  library code and stay parameters (\<open>loads\<close>, with \<open>None\<close> when it raises, and
  \<open>dumps\<close>).
\<close>

datatype exn = TypeError | ValueError | KeyError | AttributeError | IndexError

text \<open>
  The text of an inspector message is kept as its template and arguments: rendering them
  (\<open>str.format\<close>, \<open>repr\<close>) is library code.
\<close>

datatype message_text =
    Unrecognized_option string string
  | Illegal_value string
  | Value_required string
  | Values_required "string list"
  | Configuration_settings
  | Fault exn

datatype pyval =
    PNone
  | PBool bool
  | PInt int
  | PStr string
  | PMsg message_text
  | PList "pyval list"
  | PDict "(string \<times> pyval) list"

text \<open>Truth value of an object, as \<open>if metadata:\<close> tests it.\<close>

fun truthy :: "pyval \<Rightarrow> bool" where
  "truthy PNone = False"
| "truthy (PBool b) = b"
| "truthy (PInt i) = (i \<noteq> 0)"
| "truthy (PStr s) = (s \<noteq> [])"
| "truthy (PMsg m) = True"
| "truthy (PList xs) = (xs \<noteq> [])"
| "truthy (PDict kvs) = (kvs \<noteq> [])"

text \<open>
  The input file is the text still to be read. \<open>readline\<close> returns the text up to and
  including the first newline (all of it when there is none), \<open>read n\<close> at most \<open>n\<close>
  characters: fewer at the end of the file, without an error.
\<close>

type_synonym istream = string

definition readline :: "istream \<Rightarrow> string \<times> istream" where
  "readline f =
     (case dropWhile (\<lambda>c. c \<noteq> CHR 0x0A) f of
        [] \<Rightarrow> (f, [])
      | nl # rest \<Rightarrow> (takeWhile (\<lambda>c. c \<noteq> CHR 0x0A) f @ [nl], rest))"

definition read :: "istream \<Rightarrow> nat \<Rightarrow> string \<times> istream" where
  "read f n = (take n f, drop n f)"

text \<open>
  The output file: the text already delivered to the host and the text written but not
  flushed yet. \<open>write\<close> takes the object the code passes. For a string every stream
  appends it. For \<open>None\<close> a Python 2 \<open>file\<close> (\<open>sys.stdout\<close>, the default
  \<open>ofile\<close>) and a \<open>cStringIO\<close> raise \<open>TypeError\<close>, while the pure-Python
  \<open>StringIO.StringIO\<close> returns at once (\<open>if not s: return\<close>); \<open>none_ok\<close> tells the
  two kinds of stream apart.
\<close>

record ostream =
  delivered :: string
  buffered :: string
  none_ok :: bool

definition "write" :: "ostream \<Rightarrow> string option \<Rightarrow> exn + ostream" where
  "write f s =
     (case s of
        Some text \<Rightarrow> Inr (f\<lparr>buffered := buffered f @ text\<rparr>)
      | None \<Rightarrow> if none_ok f then Inr f else Inl TypeError)"

definition flush :: "ostream \<Rightarrow> ostream" where
  "flush f = f\<lparr>delivered := delivered f @ buffered f, buffered := []\<rparr>"

text \<open>Everything written to a stream so far, flushed or not.\<close>

definition written :: "ostream \<Rightarrow> string" where
  "written f = delivered f @ buffered f"

section \<open>Frame codec: \<open>_read_chunk\<close> and \<open>_write_chunk\<close>\<close>

text \<open>
  The character classes of Python 2's \<open>re\<close> without flags: \<open>\s\<close> is
  \<open>[ \t\n\r\f\v]\<close> and \<open>\d\<close> is \<open>[0-9]\<close>.
\<close>

definition is_space :: "char \<Rightarrow> bool" where
  "is_space c = (c \<in> set [CHR '' '', CHR 0x09, CHR 0x0A, CHR 0x0D, CHR 0x0C, CHR 0x0B])"

definition is_digit :: "char \<Rightarrow> bool" where
  "is_digit c = (c \<in> set ''0123456789'')"

text \<open>\<open>int(s)\<close> for a text of decimal digits.\<close>

definition digit_val :: "char \<Rightarrow> nat" where
  "digit_val c = of_char c - 48"

definition int_of_digits :: "string \<Rightarrow> nat" where
  "int_of_digits ds = foldl (\<lambda>a c. 10 * a + digit_val c) 0 ds"

text \<open>
  \<^verbatim>\<open>
  m = re.match('chunked\s+1.0\s*,\s*(?P<metadata_length>\d+)\s*,\s*(?P<body_length>\d+)\s*\n', header)
  \<close>
  \<open>re.match\<close> anchors the pattern at the start of \<open>header\<close> only. The pattern is matched
  piece by piece; the result is the pair of the two groups. The dot of \<open>1.0\<close> is the
  regular expression's: any character but a newline. A greedy run of \<open>\s\<close> or \<open>\d\<close> is
  always followed by a piece that no character of the run can match, so giving characters
  back never helps, except at the end: \<open>\s*\n\<close> matches when the run of white space after
  the second number contains a newline.
\<close>

fun strip_prefix :: "string \<Rightarrow> string \<Rightarrow> string option" where
  "strip_prefix [] s = Some s"
| "strip_prefix (p # ps) [] = None"
| "strip_prefix (p # ps) (c # cs) = (if p = c then strip_prefix ps cs else None)"

definition match_header :: "string \<Rightarrow> (string \<times> string) option" where
  "match_header header =
     (case strip_prefix ''chunked'' header of
        None \<Rightarrow> None
      | Some r0 \<Rightarrow>
          if takeWhile is_space r0 = [] then None
          else
            (case dropWhile is_space r0 of
               c1 # c2 # c3 # r1 \<Rightarrow>
                 if c1 = CHR ''1'' \<and> c2 \<noteq> CHR 0x0A \<and> c3 = CHR ''0'' then
                   (case dropWhile is_space r1 of
                      c4 # r2 \<Rightarrow>
                        if c4 = CHR '','' then
                          let r3 = dropWhile is_space r2;
                              metadata_length = takeWhile is_digit r3;
                              r4 = dropWhile is_space (dropWhile is_digit r3)
                          in if metadata_length = [] then None
                             else
                               (case r4 of
                                  c5 # r5 \<Rightarrow>
                                    if c5 = CHR '','' then
                                      let r6 = dropWhile is_space r5;
                                          body_length = takeWhile is_digit r6;
                                          r7 = dropWhile is_digit r6
                                      in if body_length = [] then None
                                         else if CHR 0x0A \<in> set (takeWhile is_space r7)
                                           then Some (metadata_length, body_length)
                                         else None
                                    else None
                                | [] \<Rightarrow> None)
                        else None
                    | [] \<Rightarrow> None)
                 else None
             | _ \<Rightarrow> None))"

text \<open>What \<open>_read_chunk\<close> prints on \<open>sys.stderr\<close>.\<close>

datatype diag =
    Failed_header string
  | Reading_chunk nat nat
  | Failed_json

text \<open>
  \<^verbatim>\<open>
  try:
      header = f.readline()
  except:
      return None
  if not header or len(header) == 0:
      return None
  m = re.match(..., header)
  if m is None:
      print('Failed to parse transport header: {0}'.format(header), file=sys.stderr)
      return None
  try:
      metadata_length = int(m.group('metadata_length'))
      body_length = int(m.group('body_length'))
  except:
      print('Failed to parse metadata or body length', file=sys.stderr)
      return None
  print('READING CHUNK {0} {1}'.format(metadata_length, body_length), file=sys.stderr)
  try:
      metadata_buffer = f.read(metadata_length)
      body = f.read(body_length)
  except Exception as error:
      print('Failed to read metadata or body: {0}'.format(error), file=sys.stderr)
      return None
  try:
      metadata = json.loads(metadata_buffer)
  except:
      print('Failed to parse metadata JSON', file=sys.stderr)
      return None
  return [metadata, body]
  \<close>
  The result is what the function returns (\<open>None\<close> for Python's \<open>None\<close>), the file
  after the reads, and the lines printed on \<open>sys.stderr\<close>. Reading the in-memory file
  raises nothing, and \<open>int\<close> of a group of \<open>\d+\<close> raises nothing, so the two
  handlers around them have no branch in the model.
\<close>

definition read_chunk ::
  "(string \<Rightarrow> pyval option) \<Rightarrow> istream \<Rightarrow> (pyval \<times> string) option \<times> istream \<times> diag list" where
  "read_chunk loads f =
     (let (header, f1) = readline f in
      if header = [] then (None, f1, [])
      else
        (case match_header header of
           None \<Rightarrow> (None, f1, [Failed_header header])
         | Some (g1, g2) \<Rightarrow>
             let metadata_length = int_of_digits g1;
                 body_length = int_of_digits g2;
                 (metadata_buffer, f2) = read f1 metadata_length;
                 (body, f3) = read f2 body_length
             in (case loads metadata_buffer of
                   None \<Rightarrow> (None, f3, [Reading_chunk metadata_length body_length, Failed_json])
                 | Some metadata \<Rightarrow>
                     (Some (metadata, body), f3, [Reading_chunk metadata_length body_length]))))"

text \<open>\<open>'chunked 1.0,%d,%d\n' % (m, b)\<close>.\<close>

definition chunk_header :: "nat \<Rightarrow> nat \<Rightarrow> string" where
  "chunk_header m b = ''chunked 1.0,'' @ str_of_nat m @ '','' @ str_of_nat b @ [CHR 0x0A]"

text \<open>
  \<^verbatim>\<open>
  metadata_buffer = None
  if metadata:
      metadata_buffer = json.dumps(metadata)
  f.write('chunked 1.0,%d,%d\n' % (len(metadata_buffer) if metadata_buffer else 0, len(body)))
  f.write(metadata_buffer)
  f.write(body)
  f.flush()
  \<close>
  The result is the exception raised, if any, and the stream as the call leaves it.
\<close>

definition write_chunk ::
  "(pyval \<Rightarrow> string) \<Rightarrow> ostream \<Rightarrow> pyval \<Rightarrow> string \<Rightarrow> exn option \<times> ostream" where
  "write_chunk dumps f metadata body =
     (let metadata_buffer = (if truthy metadata then Some (dumps metadata) else None);
          metadata_length =
            (case metadata_buffer of
               None \<Rightarrow> 0
             | Some b \<Rightarrow> if b \<noteq> [] then length b else 0)
      in case write f (Some (chunk_header metadata_length (length body))) of
           Inl e \<Rightarrow> (Some e, f)
         | Inr f1 \<Rightarrow>
             (case write f1 metadata_buffer of
                Inl e \<Rightarrow> (Some e, f1)
              | Inr f2 \<Rightarrow>
                  (case write f2 (Some body) of
                     Inl e \<Rightarrow> (Some e, f2)
                   | Inr f3 \<Rightarrow> (None, flush f3))))"

text \<open>
  A chunk as the specification's data model has it: the header declares the lengths of the
  metadata and body that follow it.
\<close>

definition chunk_bytes :: "string \<times> string \<Rightarrow> string" where
  "chunk_bytes c = chunk_header (length (fst c)) (length (snd c)) @ fst c @ snd c"

text \<open>
  For the concrete runs below \<open>json.loads\<close> is instantiated with a decoder that knows
  three texts only: the empty object, the empty list, and the metadata of a getInfo chunk
  with the tokens \<open>field1\<close>, \<open>opt1=5\<close> and \<open>badopt=1\<close>. No general statement depends
  on it.
\<close>

definition quoted :: "string \<Rightarrow> string" where
  "quoted s = CHR 0x22 # s @ [CHR 0x22]"

definition getinfo_text :: string where
  "getinfo_text =
     ''{'' @ quoted ''args'' @ '':['' @ quoted ''field1'' @ '','' @ quoted ''opt1=5'' @ '',''
       @ quoted ''badopt=1'' @ '']}''"

definition loads_min :: "string \<Rightarrow> pyval option" where
  "loads_min s =
     (if s = ''{}'' then Some (PDict [])
      else if s = ''[]'' then Some (PList [])
      else if s = getinfo_text
        then Some (PDict [(''args'', PList [PStr ''field1'', PStr ''opt1=5'', PStr ''badopt=1''])])
      else None)"

section \<open>Rows: \<open>_records\<close>\<close>

text \<open>
  \<^verbatim>\<open>
  try:
      fieldnames = reader.next()
  except StopIteration:
      return
  mv_fieldnames = set()
  for fieldname in fieldnames:
      if fieldname.startswith('__mv_'):
          mv_fieldnames.add(fieldname[len('__mv_')])
  if len(mv_fieldnames):
      for values in reader:
          record = OrderedDict()
          for fieldname, value in izip(fieldnames, record):
              if fieldname.startswith('__mv_'):
                  values[fieldname[len('__mv_'):]] = self._decode_list(value)
              elif fieldname not in mv_fieldnames:
                  values[fieldname] = value
          record_count += 1L
          yield record
  else:
      for values in reader:
          record = OrderedDict(izip(fieldnames, values))
          record_count += 1
          yield record
  \<close>
  The reader is the list of the rows of a chunk body, each a list of cells; the result is
  the list of the records the generator yields, or the exception it raises. In the first
  loop \<open>fieldname[len('__mv_')]\<close> is one character (an index, not a slice) and raises
  \<open>IndexError\<close> for the name \<open>__mv_\<close> itself. The inner loop pairs the field names
  with the keys of \<open>record\<close>; an assignment in its body indexes the list \<open>values\<close> by a
  string, which raises \<open>TypeError\<close>.
\<close>

fun od_set :: "(string \<times> 'v) list \<Rightarrow> string \<Rightarrow> 'v \<Rightarrow> (string \<times> 'v) list" where
  "od_set [] k v = [(k, v)]"
| "od_set ((k', v') # kvs) k v = (if k' = k then (k, v) # kvs else (k', v') # od_set kvs k v)"

definition OrderedDict :: "(string \<times> 'v) list \<Rightarrow> (string \<times> 'v) list" where
  "OrderedDict pairs = foldl (\<lambda>d (k, v). od_set d k v) [] pairs"

definition startswith :: "string \<Rightarrow> string \<Rightarrow> bool" where
  "startswith s p = (take (length p) s = p)"

fun mv_names :: "string list \<Rightarrow> string list \<Rightarrow> exn + string list" where
  "mv_names [] mv_fieldnames = Inr mv_fieldnames"
| "mv_names (fieldname # rest) mv_fieldnames =
     (if startswith fieldname ''__mv_'' then
        (if length ''__mv_'' < length fieldname
           then mv_names rest (List.insert [fieldname ! length ''__mv_''] mv_fieldnames)
         else Inl IndexError)
      else mv_names rest mv_fieldnames)"

fun records_inner :: "(string \<times> string) list \<Rightarrow> string list \<Rightarrow> exn option" where
  "records_inner [] mv_fieldnames = None"
| "records_inner ((fieldname, v) # rest) mv_fieldnames =
     (if startswith fieldname ''__mv_'' then Some TypeError
      else if fieldname \<notin> set mv_fieldnames then Some TypeError
      else records_inner rest mv_fieldnames)"

fun records_mv :: "string list \<Rightarrow> string list \<Rightarrow> string list list \<Rightarrow> exn + (string \<times> string) list list" where
  "records_mv fieldnames mv_fieldnames [] = Inr []"
| "records_mv fieldnames mv_fieldnames (values # reader) =
     (let record = OrderedDict [] in
      case records_inner (zip fieldnames (map fst record)) mv_fieldnames of
        Some e \<Rightarrow> Inl e
      | None \<Rightarrow>
          (case records_mv fieldnames mv_fieldnames reader of
             Inl e \<Rightarrow> Inl e
           | Inr rs \<Rightarrow> Inr (record # rs)))"

definition records :: "string list list \<Rightarrow> exn + (string \<times> string) list list" where
  "records reader =
     (case reader of
        [] \<Rightarrow> Inr []
      | fieldnames # rows \<Rightarrow>
          (case mv_names fieldnames [] of
             Inl e \<Rightarrow> Inl e
           | Inr mv_fieldnames \<Rightarrow>
               if length mv_fieldnames \<noteq> 0 then records_mv fieldnames mv_fieldnames rows
               else Inr (map (\<lambda>values. OrderedDict (zip fieldnames values)) rows)))"

section \<open>Command lifecycle: \<open>process\<close>\<close>

text \<open>
  Modelled from the spec: the options subsystem (\<open>decorators.Option\<close> and its
  \<open>Option.View\<close>), which is not among the source files. An option has a name, may be
  required, validates the text assigned to it, and holds a value once one was assigned.
  \<open>self.options[name]\<close> raises \<open>KeyError\<close> for a name that is not declared (here
  \<open>None\<close>), assigning \<open>option.value\<close> raises \<open>ValueError\<close> when validation fails,
  and \<open>get_missing\<close> returns the names of the required options without a value, or
  \<open>None\<close> when there is none.
\<close>

record option_slot =
  opt_name :: string
  opt_required :: bool
  opt_validate :: "string \<Rightarrow> bool"
  opt_value :: "string option"

definition options_reset :: "option_slot list \<Rightarrow> option_slot list" where
  "options_reset opts = map (\<lambda>opt. opt\<lparr>opt_value := None\<rparr>) opts"

definition options_get :: "option_slot list \<Rightarrow> string \<Rightarrow> option_slot option" where
  "options_get opts n = find (\<lambda>opt. opt_name opt = n) opts"

definition options_assign :: "option_slot list \<Rightarrow> string \<Rightarrow> string \<Rightarrow> option_slot list" where
  "options_assign opts n v = map (\<lambda>opt. if opt_name opt = n then opt\<lparr>opt_value := Some v\<rparr> else opt) opts"

definition get_missing :: "option_slot list \<Rightarrow> string list option" where
  "get_missing opts =
     (let missing = map opt_name (filter (\<lambda>opt. opt_required opt \<and> opt_value opt = None) opts)
      in if missing = [] then None else Some missing)"

text \<open>
  The command object, as far as \<open>process\<close> reads and writes it, with the two files and
  what was printed on \<open>sys.stderr\<close>.
\<close>

record run =
  fieldnames :: "string list"
  options :: "option_slot list"
  message_count :: nat
  inspector :: "(string \<times> pyval) list"
  command_metadata :: "pyval option"
  ifile :: istream
  ofile :: ostream
  stderr :: "diag list"

text \<open>
  What a command class adds to \<open>SearchCommand\<close>: the \<open>prepare\<close> hook (\<open>pass\<close> unless
  overridden), the items of its \<open>ConfigurationSettings\<close> as \<open>iteritems\<close> yields them,
  and the value of the \<open>show_configuration\<close> option as its validator (not among the source
  files) reads it from the options.
\<close>

record command =
  prepare :: "run \<Rightarrow> exn + run"
  configuration_items :: "(string \<times> pyval) list"
  show_configuration :: "option_slot list \<Rightarrow> bool"

text \<open>
  How a stretch of code ends: it returns, raises an exception, leaves the process with
  \<open>exit(n)\<close>, or (for a loop run with bounded fuel) is still running when the fuel is
  used up. Each carries the state at that moment.
\<close>

datatype outcome = Returned run | Raised exn run | Exited nat run | Running run

text \<open>
  \<^verbatim>\<open>
  def _write_message(self, message_type, message_text, *args):
      message_text = message_text.format(args)
      self._inspector['message.{0}.{1}'.format(self._message_count, message_type)] = message_text
  \<close>
  The second \<open>format\<close> leaves a text without replacement fields as it is; the messages
  of \<open>process\<close> are such texts unless a token itself contains a brace.
\<close>

definition write_message :: "run \<Rightarrow> string \<Rightarrow> message_text \<Rightarrow> run" where
  "write_message st message_type message_text =
     st\<lparr>inspector :=
          od_set (inspector st)
            (''message.'' @ str_of_nat (message_count st) @ ''.'' @ message_type)
            (PMsg message_text)\<rparr>"

definition write_error :: "run \<Rightarrow> message_text \<Rightarrow> run" where
  "write_error st message = write_message st ''ERROR'' message"

definition write_info :: "run \<Rightarrow> message_text \<Rightarrow> run" where
  "write_info st message = write_message st ''INFO'' message"

text \<open>\<open>arg.split('=', 1)\<close>.\<close>

definition split_eq :: "string \<Rightarrow> string list" where
  "split_eq arg =
     (if CHR ''='' \<in> set arg
        then [takeWhile (\<lambda>c. c \<noteq> CHR ''='') arg, tl (dropWhile (\<lambda>c. c \<noteq> CHR ''='') arg)]
      else [arg])"

text \<open>
  \<^verbatim>\<open>
  for arg in metadata['args']:
      result = arg.split('=', 1)
      if len(result) == 1:
          self.fieldnames.append(result[0])
      else:
          name, value = result
          try:
              option = self.options[name]
          except KeyError:
              self.write_error('Unrecognized option: {0}'.format(result))
              continue
          try:
              option.value = value
          except ValueError:
              self.write_error('Illegal value: {0}'.format(option))
              continue
  \<close>
  A token that is not a string has no \<open>split\<close>: \<open>AttributeError\<close>.
\<close>

fun process_args :: "pyval list \<Rightarrow> run \<Rightarrow> exn option \<times> run" where
  "process_args [] st = (None, st)"
| "process_args (arg # args) st =
     (case arg of
        PStr a \<Rightarrow>
          (let result = split_eq a in
           if length result = 1 then process_args args (st\<lparr>fieldnames := fieldnames st @ [result ! 0]\<rparr>)
           else
             (let name = result ! 0; v = result ! 1 in
              case options_get (options st) name of
                None \<Rightarrow> process_args args (write_error st (Unrecognized_option name v))
              | Some opt \<Rightarrow>
                  if opt_validate opt v
                    then process_args args (st\<lparr>options := options_assign (options st) name v\<rparr>)
                  else process_args args (write_error st (Illegal_value name))))
      | _ \<Rightarrow> (Some AttributeError, st))"

text \<open>
  \<open>'args' in metadata and type(metadata['args']) == list\<close>, and the list the loop then
  runs over (the empty list when the test is false). \<open>in\<close> looks for a key in a
  dictionary, an element in a list and a substring in a string, and raises \<open>TypeError\<close>
  on a value that is not iterable; indexing a list or a string by \<open>'args'\<close> raises
  \<open>TypeError\<close>.
\<close>

fun contains :: "string \<Rightarrow> string \<Rightarrow> bool" where
  "contains [] p = (p = [])"
| "contains (c # cs) p = (startswith (c # cs) p \<or> contains cs p)"

definition args_of :: "pyval \<Rightarrow> exn + pyval list" where
  "args_of metadata =
     (case metadata of
        PDict kvs \<Rightarrow>
          (case map_of kvs ''args'' of
             Some (PList args) \<Rightarrow> Inr args
           | _ \<Rightarrow> Inr [])
      | PList xs \<Rightarrow> if PStr ''args'' \<in> set xs then Inl TypeError else Inr []
      | PStr s \<Rightarrow> if contains s ''args'' then Inl TypeError else Inr []
      | _ \<Rightarrow> Inl TypeError)"

text \<open>
  The body of the \<open>try\<close> of \<open>process\<close> up to the call of \<open>_execute\<close>, in three
  parts. First the getInfo chunk is read and its tokens are processed:
  \<^verbatim>\<open>
  metadata, body = self._read_chunk(ifile)
  self.fieldnames = []
  self.options.reset()
  self._message_count = 0L
  if 'args' in metadata and type(metadata['args']) == list:
      for arg in metadata['args']: ...
  \<close>
  Unpacking the \<open>None\<close> that \<open>_read_chunk\<close> may return raises \<open>TypeError\<close>.
\<close>

definition report_missing :: "run \<Rightarrow> run" where
  "report_missing st =
     (case get_missing (options st) of
        None \<Rightarrow> st
      | Some missing \<Rightarrow>
          if length missing = 1 then write_error st (Value_required (missing ! 0))
          else write_error st (Values_required missing))"

text \<open>
  Then the decision and the configuration chunk (\<open>Returned\<close> is reaching the call of
  \<open>_execute\<close>):
  \<^verbatim>\<open>
  missing = self.options.get_missing()
  if missing is not None:
      if len(missing) == 1:
          self.write_error('A value for "{0}" is required'.format(missing[0]))
      else:
          self.write_error('Values for these options are required: {0}'.format(', '.join(missing)))
  if self._message_count > 0:
      exit(1)
  self._configuration = type(self).ConfigurationSettings(self)
  self._metadata = metadata
  self.prepare()
  if self.show_configuration:
      self.write_info('{0} command configuration settings: {1}'.format(self.name, self.configuration))
  metadata = OrderedDict(chain(self.configuration.iteritems(), (('inspector', self._inspector),)))
  self._write_chunk(ofile, metadata, '')
  self._inspector.clear()
  ofile.write('\n')
  \<close>
  \<open>ifile\<close> and \<open>ofile\<close> are local to \<open>process\<close>: \<open>prepare\<close> works on the command
  object and leaves them as they are.
\<close>

definition configure :: "(pyval \<Rightarrow> string) \<Rightarrow> command \<Rightarrow> pyval \<Rightarrow> run \<Rightarrow> outcome" where
  "configure dumps cmd metadata st3 =
     (let st4 = report_missing st3
      in if message_count st4 > 0 then Exited 1 st4
         else
           (case prepare cmd (st4\<lparr>command_metadata := Some metadata\<rparr>) of
              Inl e \<Rightarrow> Raised e (st4\<lparr>command_metadata := Some metadata\<rparr>)
            | Inr prepared \<Rightarrow>
                (let st5 = prepared\<lparr>ifile := ifile st4, ofile := ofile st4, stderr := stderr st4\<rparr>;
                     st6 =
                       (if show_configuration cmd (options st5)
                          then write_info st5 Configuration_settings
                        else st5);
                     chunk_metadata =
                       OrderedDict (configuration_items cmd @ [(''inspector'', PDict (inspector st6))]);
                     (raised, o1) = write_chunk dumps (ofile st6) (PDict chunk_metadata) []
                 in case raised of
                      Some e \<Rightarrow> Raised e (st6\<lparr>ofile := o1\<rparr>)
                    | None \<Rightarrow>
                        (let st7 = st6\<lparr>ofile := o1, inspector := []\<rparr>
                         in case write (ofile st7) (Some [CHR 0x0A]) of
                              Inl e \<Rightarrow> Raised e st7
                            | Inr o2 \<Rightarrow> Returned (st7\<lparr>ofile := o2\<rparr>)))))"

definition getinfo :: "(string \<Rightarrow> pyval option) \<Rightarrow> (pyval \<Rightarrow> string) \<Rightarrow> command \<Rightarrow> run \<Rightarrow> outcome" where
  "getinfo loads dumps cmd st0 =
     (let (result, f1, printed) = read_chunk loads (ifile st0);
          st1 = st0\<lparr>ifile := f1, stderr := stderr st0 @ printed\<rparr>
      in case result of
           None \<Rightarrow> Raised TypeError st1
         | Some (metadata, body) \<Rightarrow>
             (let st2 = st1\<lparr>fieldnames := [], options := options_reset (options st1), message_count := 0\<rparr>
              in case args_of metadata of
                   Inl e \<Rightarrow> Raised e st2
                 | Inr args \<Rightarrow>
                     (case process_args args st2 of
                        (Some e, st3) \<Rightarrow> Raised e st3
                      | (None, st3) \<Rightarrow> configure dumps cmd metadata st3)))"

text \<open>
  \<open>process\<close>: the body above, then \<open>_execute\<close>, inside
  \<^verbatim>\<open>
  except SystemExit:
      raise
  except:
      ...
      self.write_error('%s at "%s", line %d : %s', error_type.__name__, filename, lineno, error_message)
      exit(1)
  \<close>
\<close>

definition handle :: "outcome \<Rightarrow> outcome" where
  "handle r = (case r of Raised e st \<Rightarrow> Exited 1 (write_error st (Fault e)) | _ \<Rightarrow> r)"

definition process ::
  "(string \<Rightarrow> pyval option) \<Rightarrow> (pyval \<Rightarrow> string) \<Rightarrow> command \<Rightarrow> (run \<Rightarrow> outcome) \<Rightarrow> run \<Rightarrow> outcome" where
  "process loads dumps cmd execute st =
     handle (case getinfo loads dumps cmd st of Returned st' \<Rightarrow> execute st' | r \<Rightarrow> r)"

text \<open>
  The state \<open>__init__\<close> leaves, with the input to read and an empty output file of the
  given kind; \<open>declared\<close> are the options of the command class. \<open>_fieldnames\<close> and
  \<open>_message_count\<close>, which \<open>__init__\<close> sets to \<open>None\<close>, have the values that
  \<open>process\<close> assigns before it reads them.
\<close>

definition init_run :: "option_slot list \<Rightarrow> istream \<Rightarrow> bool \<Rightarrow> run" where
  "init_run declared input lenient =
     \<lparr>fieldnames = [], options = declared, message_count = 0, inspector = [],
      command_metadata = None, ifile = input,
      ofile = \<lparr>delivered = [], buffered = [], none_ok = lenient\<rparr>, stderr = []\<rparr>"

text \<open>
  For the concrete runs: a command class that declares the one option \<open>opt1\<close> (not
  required, a run of digits), does not override \<open>prepare\<close> and leaves
  \<open>show_configuration\<close> at its default; and the getInfo chunk with the metadata
  \<open>getinfo_text\<close> and an empty body.
\<close>

definition opt1 :: option_slot where
  "opt1 = \<lparr>opt_name = ''opt1'', opt_required = False,
            opt_validate = (\<lambda>v. v \<noteq> [] \<and> list_all is_digit v), opt_value = None\<rparr>"

definition plain_command :: "(string \<times> pyval) list \<Rightarrow> command" where
  "plain_command items =
     \<lparr>prepare = Inr, configuration_items = items, show_configuration = (\<lambda>opts. False)\<rparr>"

definition getinfo_input :: string where
  "getinfo_input = chunk_header (length getinfo_text) 0 @ getinfo_text"

section \<open>Execution loops: \<open>_execute\<close>\<close>

text \<open>
  \<open>GeneratingCommand._execute\<close>:
  \<^verbatim>\<open>
  while True:
      output_buffer = StringIO()
      writer = csv.writer(output_buffer, dialect='splunklib.searchcommands')
      record_count = 0L
      for record in self.generate():
          writer.writerow(record)
          record_count += 1L
      self._write_chunk(ofile, None, output_buffer.getvalue())
      pass
  \<close>
  \<open>generate k\<close> is the text \<open>csv.writer\<close> has produced from the records of the
  \<open>k\<close>-th call of \<open>self.generate()\<close>. The loop has no exit of its own, so the model
  runs it on fuel: \<open>Running\<close> is the loop after that many iterations.
\<close>

fun generating_execute :: "nat \<Rightarrow> (pyval \<Rightarrow> string) \<Rightarrow> (nat \<Rightarrow> string) \<Rightarrow> nat \<Rightarrow> run \<Rightarrow> outcome" where
  "generating_execute 0 dumps generate k st = Running st"
| "generating_execute (Suc fuel) dumps generate k st =
     (let (raised, o1) = write_chunk dumps (ofile st) PNone (generate k)
      in case raised of
           Some e \<Rightarrow> Raised e (st\<lparr>ofile := o1\<rparr>)
         | None \<Rightarrow> generating_execute fuel dumps generate (Suc k) (st\<lparr>ofile := o1\<rparr>))"

text \<open>
  \<open>StreamingCommand._execute\<close>:
  \<^verbatim>\<open>
  while True:
      result = self._read_chunk(ifile)
      if not result:
          break
      metadata, body = result
      ...
      for record in self.stream(self._records(reader)): ...
      metadata = {'finished': self.finished} if self.finished else None
      self._write_chunk(ofile, metadata, self._output_buffer.getvalue())
      pass
  \<close>
  \<open>transform body\<close> stands for the lines between: the output text and the value of
  \<open>self.finished\<close> that the command's \<open>stream\<close> produces from the rows of \<open>body\<close>, or
  the exception it raises.
\<close>

fun streaming_execute ::
  "nat \<Rightarrow> (string \<Rightarrow> pyval option) \<Rightarrow> (pyval \<Rightarrow> string) \<Rightarrow> (string \<Rightarrow> exn + string \<times> bool) \<Rightarrow> run \<Rightarrow> outcome" where
  "streaming_execute 0 loads dumps transform st = Running st"
| "streaming_execute (Suc fuel) loads dumps transform st =
     (let (result, f1, printed) = read_chunk loads (ifile st);
          st1 = st\<lparr>ifile := f1, stderr := stderr st @ printed\<rparr>
      in case result of
           None \<Rightarrow> Returned st1
         | Some (metadata, body) \<Rightarrow>
             (case transform body of
                Inl e \<Rightarrow> Raised e st1
              | Inr (output, finished) \<Rightarrow>
                  (let chunk_metadata = (if finished then PDict [(''finished'', PBool finished)] else PNone);
                       (raised, o1) = write_chunk dumps (ofile st1) chunk_metadata output
                   in case raised of
                        Some e \<Rightarrow> Raised e (st1\<lparr>ofile := o1\<rparr>)
                      | None \<Rightarrow> streaming_execute fuel loads dumps transform (st1\<lparr>ofile := o1\<rparr>))))"

text \<open>
  The state an outcome carries, and the shape of what a loop has added to the output:
  \<open>chunks_then before text\<close> says that \<open>text\<close> is \<open>before\<close> followed by whole chunks
  and nothing else, but for the lone header that a \<open>_write_chunk\<close> cut short by its
  \<open>TypeError\<close> leaves at the end.
\<close>

fun state_of :: "outcome \<Rightarrow> run" where
  "state_of (Returned st) = st"
| "state_of (Raised e st) = st"
| "state_of (Exited n st) = st"
| "state_of (Running st) = st"

definition chunks_then :: "string \<Rightarrow> string \<Rightarrow> bool" where
  "chunks_then before text =
     (\<exists>chunks tail. text = before @ concat (map chunk_bytes chunks) @ tail \<and>
        (tail = [] \<or> (\<exists>n. tail = chunk_header 0 n)))"

section \<open>Record writer\<close>

text \<open>
  Modelled from the spec: the \<open>RecordWriter\<close> of \<open>splunklib.searchcommands.internals\<close>,
  which is not among the source files (only its test is). The writer buffers encoded rows
  against the column set of the first record written since the last flush; when the
  number of buffered rows reaches \<open>maxresultrows\<close> it writes a partial chunk and resets
  the rows and the column set, keeping the inspector; \<open>flush\<close> writes what is buffered
  as one chunk with the inspector as metadata, clears the inspector, and with
  \<open>finished\<close> closes the writer; after that \<open>write_record\<close> and \<open>flush\<close> fail with a
  UsageError (the test expects Python's \<open>RuntimeError\<close>). A chunk is kept as its
  metadata, body and \<open>finished\<close> mark; \<open>columns_of\<close> and \<open>encode_row\<close> stand for the
  record codec.
\<close>

datatype usage_error = UsageError

record record_writer =
  rw_chunks :: "((string \<times> pyval) list \<times> string \<times> bool) list"
  rw_maxresultrows :: nat
  rw_fieldnames :: "string list option"
  rw_buffer :: string
  rw_record_count :: nat
  rw_inspector :: "(string \<times> pyval) list"
  rw_closed :: bool

definition partial_flush :: "record_writer \<Rightarrow> record_writer" where
  "partial_flush w =
     w\<lparr>rw_chunks := rw_chunks w @ [([], rw_buffer w, False)],
       rw_fieldnames := None, rw_buffer := [], rw_record_count := 0\<rparr>"

definition write_record ::
  "('r \<Rightarrow> string list) \<Rightarrow> ('r \<Rightarrow> string list \<Rightarrow> string) \<Rightarrow> record_writer \<Rightarrow> 'r \<Rightarrow>
   usage_error option \<times> record_writer" where
  "write_record columns_of encode_row w r =
     (if rw_closed w then (Some UsageError, w)
      else
        (let fixed_columns = (case rw_fieldnames w of None \<Rightarrow> columns_of r | Some cols \<Rightarrow> cols);
             w1 = w\<lparr>rw_fieldnames := Some fixed_columns,
                    rw_buffer := rw_buffer w @ encode_row r fixed_columns,
                    rw_record_count := rw_record_count w + 1\<rparr>
         in if rw_record_count w1 \<ge> rw_maxresultrows w1 then (None, partial_flush w1)
            else (None, w1)))"

definition writer_flush :: "record_writer \<Rightarrow> bool \<Rightarrow> usage_error option \<times> record_writer" where
  "writer_flush w finished =
     (if rw_closed w then (Some UsageError, w)
      else
        (None,
         w\<lparr>rw_chunks := rw_chunks w @ [(rw_inspector w, rw_buffer w, finished)],
           rw_fieldnames := None, rw_buffer := [], rw_record_count := 0,
           rw_inspector := [], rw_closed := finished\<rparr>))"

text \<open>
  A caller that goes on using the writer: each call's result is recorded, as a caller that
  catches the error sees it. \<open>new_writer\<close> is the writer as constructed.
\<close>

datatype 'r writer_call = Write_record 'r | Flush bool

fun writer_calls ::
  "('r \<Rightarrow> string list) \<Rightarrow> ('r \<Rightarrow> string list \<Rightarrow> string) \<Rightarrow> record_writer \<Rightarrow> 'r writer_call list \<Rightarrow>
   usage_error option list \<times> record_writer" where
  "writer_calls columns_of encode_row w [] = ([], w)"
| "writer_calls columns_of encode_row w (c # cs) =
     (let (r, w1) =
            (case c of
               Write_record rec \<Rightarrow> write_record columns_of encode_row w rec
             | Flush finished \<Rightarrow> writer_flush w finished);
          (rs, w2) = writer_calls columns_of encode_row w1 cs
      in (r # rs, w2))"

definition new_writer :: "nat \<Rightarrow> record_writer" where
  "new_writer maxresultrows =
     \<lparr>rw_chunks = [], rw_maxresultrows = maxresultrows, rw_fieldnames = None, rw_buffer = [],
      rw_record_count = 0, rw_inspector = [], rw_closed = False\<rparr>"

text \<open>Writing a list of records one after the other.\<close>

fun write_records ::
  "('r \<Rightarrow> string list) \<Rightarrow> ('r \<Rightarrow> string list \<Rightarrow> string) \<Rightarrow> record_writer \<Rightarrow> 'r list \<Rightarrow> record_writer" where
  "write_records columns_of encode_row w [] = w"
| "write_records columns_of encode_row w (r # rs) =
     write_records columns_of encode_row (snd (write_record columns_of encode_row w r)) rs"

section \<open>Properties of the multi-value codec\<close>

lemma encode_list_many:
  "2 \<le> length value \<Longrightarrow>
   encode_list value = (Some (join [CHR 0x0A] (map to_string value)), Some ''$$'')"
  by (auto simp: encode_list_def imap_def drain_def Let_def comp_def)

lemma decode_loop_element:
  "r = [] \<or> hd r \<noteq> CHR ''$'' \<Longrightarrow>
   decode_loop (replace_dollar x @ CHR ''$'' # r) True v l = decode_loop r False [] (l @ [v @ x])"
proof (induction x arbitrary: v)
  case Nil
  then show ?case by (auto simp: replace_dollar_def)
next
  case (Cons c x)
  have step: "decode_loop (replace_dollar x @ CHR ''$'' # r) True w l
      = decode_loop r False [] (l @ [w @ x])" for w
    using Cons.IH [OF Cons.prems] .
  show ?case
  proof (cases "c = CHR ''$''")
    case True
    have "replace_dollar (c # x) @ CHR ''$'' # r
        = CHR ''$'' # CHR ''$'' # (replace_dollar x @ CHR ''$'' # r)"
      using True by (simp add: replace_dollar_def)
    then show ?thesis using True step [of "v @ ''$''"] by simp
  next
    case False
    have "replace_dollar (c # x) @ CHR ''$'' # r = c # (replace_dollar x @ CHR ''$'' # r)"
      using False by (simp add: replace_dollar_def)
    then show ?thesis using False step [of "v @ [c]"] by simp
  qed
qed


text \<open>
  The elements of a well-formed companion text, followed by any text \<open>r\<close> that does not
  start with \<open>$\<close>: the loop has collected the elements when it reaches \<open>r\<close>.
\<close>

lemma decode_loop_elements:
  "xs \<noteq> [] \<Longrightarrow> r = [] \<or> hd r \<noteq> CHR ''$'' \<Longrightarrow>
   decode_loop (spec_companion xs @ r) False [] l = decode_loop r False [] (l @ xs)"
proof (induction xs arbitrary: l rule: list_nonempty_induct)
  case (single x)
  have "spec_companion [x] @ r = CHR ''$'' # (replace_dollar x @ CHR ''$'' # r)"
    by (simp add: spec_companion_def)
  then show ?case using decode_loop_element [OF single.prems, of x "[]" l] by simp
next
  case (cons x xs)
  obtain y ys where xs: "xs = y # ys" using cons.hyps by (cases xs) auto
  have shape: "spec_companion (x # xs) @ r
      = CHR ''$'' # (replace_dollar x @ CHR ''$'' # (CHR '';'' # (spec_companion xs @ r)))"
    by (simp add: spec_companion_def xs)
  have "decode_loop (spec_companion (x # xs) @ r) False [] l
      = decode_loop (replace_dollar x @ CHR ''$'' # (CHR '';'' # (spec_companion xs @ r))) True [] l"
    by (simp add: shape)
  also have "\<dots> = decode_loop (CHR '';'' # (spec_companion xs @ r)) False [] (l @ [x])"
    using decode_loop_element [of "CHR '';'' # (spec_companion xs @ r)" x "[]" l] by simp
  also have "\<dots> = decode_loop (spec_companion xs @ r) False [] (l @ [x])"
    by simp
  also have "\<dots> = decode_loop r False [] ((l @ [x]) @ xs)"
    using cons.IH [OF cons.prems] .
  finally show ?case by simp
qed

lemma spec_companion_nonempty: "spec_companion xs \<noteq> []"
  by (simp add: spec_companion_def)

text \<open>The decoder inverts the grammar of the specification.\<close>

lemma decode_list_spec_companion:
  "xs \<noteq> [] \<Longrightarrow> decode_list (spec_companion xs) = Some xs"
  using decode_loop_elements [of xs "[]" "[]"]
  by (simp add: decode_list_def spec_companion_nonempty)

text \<open>The two cases in which \<open>_encode_list\<close> builds no companion.\<close>

lemma encode_list_small:
  "encode_list [] = (None, None) \<and> encode_list [x] = (Some (to_string x), None)"
  by (simp add: encode_list_def)

lemma decode_encoded_many:
  "2 \<le> length value \<Longrightarrow> decode_encoded value = Some [[]]"
  by (simp add: decode_encoded_def encode_list_many decode_list_def)

text \<open>
  \<open>_records\<close> on a chunk whose header row names a companion column: the inner loop
  runs over the keys of the empty \<open>record\<close>, so \<open>_decode_list\<close> is not reached and
  every record yielded is empty.
\<close>

lemma records_mv_empty:
  "records_mv names mv rows = Inr (replicate (length rows) [])"
  by (induction rows) (simp_all add: OrderedDict_def)

lemma records_companion:
  "mv_names names [] = Inr mv \<Longrightarrow> mv \<noteq> [] \<Longrightarrow>
   records (names # rows) = Inr (replicate (length rows) [])"
  by (simp add: records_def records_mv_empty)

text \<open>
  Claim C1 at \<open>["a", "b$c"]\<close>: the companion \<open>_encode_list\<close> returns is \<open>$$\<close>,
  where the grammar of the specification gives \<open>$a$;$b$$c$\<close>.
\<close>

theorem encode_list_two_elements:
  "encode_list [IStr ''a'', IStr ''b$c''] = (Some (''a'' @ [CHR 0x0A] @ ''b$c''), Some ''$$'') \<and>
   spec_companion [''a'', ''b$c''] = ''$a$;$b$$c$''"
  by (simp add: encode_list_many spec_companion_def replace_dollar_def)

text \<open>
  Claim C2 at \<open>["a", "b$c", "c;d"]\<close>: decoding the companion that \<open>_encode_list\<close>
  returns gives the list of one empty string, while the decoder does return the original
  list from the companion text of the specification.
\<close>

theorem decode_encoded_three_elements:
  "decode_encoded [IStr ''a'', IStr ''b$c'', IStr ''c;d''] = Some [[]] \<and>
   decode_list (spec_companion [''a'', ''b$c'', ''c;d'']) = Some [''a'', ''b$c'', ''c;d'']"
proof -
  have a: "decode_encoded [IStr ''a'', IStr ''b$c'', IStr ''c;d''] = Some [[]]"
    by (simp add: decode_encoded_def encode_list_many decode_list_def)
  have b: "decode_list (spec_companion [''a'', ''b$c'', ''c;d'']) = Some [''a'', ''b$c'', ''c;d'']"
    by (simp add: decode_list_spec_companion)
  show ?thesis using a b by simp
qed




section \<open>Properties of the frame codec\<close>

lemma digit_char_is_digit: "d < 10 \<Longrightarrow> is_digit (digit_char d)"
proof -
  assume "d < 10"
  then have "d \<in> {0,1,2,3,4,5,6,7,8,9}" by auto
  then show ?thesis by (auto simp: is_digit_def digit_char_def)
qed

lemma digit_val_digit_char: "d < 10 \<Longrightarrow> digit_val (digit_char d) = d"
proof -
  assume "d < 10"
  then have "d \<in> {0,1,2,3,4,5,6,7,8,9}" by auto
  then show ?thesis by (auto simp: digit_val_def digit_char_def)
qed

lemma str_of_nat_digits: "c \<in> set (str_of_nat n) \<Longrightarrow> is_digit c"
proof (induction n arbitrary: c rule: str_of_nat.induct)
  case (1 n)
  show ?case
  proof (cases "n < 10")
    case True
    then show ?thesis using "1.prems" by (simp add: str_of_nat.simps [of n] digit_char_is_digit)
  next
    case False
    then show ?thesis using "1.prems" "1.IH"
      by (auto simp: str_of_nat.simps [of n] digit_char_is_digit)
  qed
qed

lemma str_of_nat_nonempty: "str_of_nat n \<noteq> []"
  by (simp add: str_of_nat.simps [of n])

lemma int_of_digits_snoc: "int_of_digits (ds @ [c]) = 10 * int_of_digits ds + digit_val c"
  by (simp add: int_of_digits_def)

lemma int_of_digits_str_of_nat: "int_of_digits (str_of_nat n) = n"
proof (induction n rule: str_of_nat.induct)
  case (1 n)
  show ?case
  proof (cases "n < 10")
    case True
    then show ?thesis
      by (simp add: str_of_nat.simps [of n] int_of_digits_def digit_val_digit_char)
  next
    case False
    then have "int_of_digits (str_of_nat n) = 10 * (n div 10) + n mod 10"
      using "1.IH" by (simp add: str_of_nat.simps [of n] int_of_digits_snoc digit_val_digit_char)
    then show ?thesis by simp
  qed
qed

lemma digit_not_space: "is_digit c \<Longrightarrow> \<not> is_space c"
  by (auto simp: is_digit_def is_space_def)

lemma takeWhile_digits_str_of_nat:
  "\<not> is_digit c \<Longrightarrow> takeWhile is_digit (str_of_nat n @ c # r) = str_of_nat n"
  by (simp add: takeWhile_append2 str_of_nat_digits)

lemma dropWhile_digits_str_of_nat:
  "\<not> is_digit c \<Longrightarrow> dropWhile is_digit (str_of_nat n @ c # r) = c # r"
  by (simp add: dropWhile_append2 str_of_nat_digits)

lemma dropWhile_space_str_of_nat:
  "dropWhile is_space (str_of_nat n @ r) = str_of_nat n @ r"
proof (cases "str_of_nat n")
  case Nil
  then show ?thesis using str_of_nat_nonempty by simp
next
  case (Cons d ds)
  then have "is_digit d" using str_of_nat_digits [of d n] by simp
  then show ?thesis using Cons by (simp add: digit_not_space)
qed

lemma match_header_chunk_header:
  "match_header (chunk_header m b) = Some (str_of_nat m, str_of_nat b)"
proof -
  have comma: "\<not> is_digit CHR '',''" "\<not> is_space CHR '',''" by (simp_all add: is_digit_def is_space_def)
  have nl: "\<not> is_digit (CHR 0x0A)" "is_space (CHR 0x0A)" by (simp_all add: is_digit_def is_space_def)
  have sp: "is_space CHR '' ''" "\<not> is_space CHR ''1''" by (simp_all add: is_space_def)
  show ?thesis
    unfolding match_header_def chunk_header_def
    by (simp add: comma nl sp dropWhile_space_str_of_nat takeWhile_digits_str_of_nat
        dropWhile_digits_str_of_nat str_of_nat_nonempty Let_def)
qed

lemma readline_empty: "readline [] = ([], [])"
  by (simp add: readline_def)

lemma read_chunk_eof: "read_chunk loads [] = (None, [], [])"
  by (simp add: read_chunk_def readline_def)



lemma match_header_groups:
  "match_header header = Some (g1, g2) \<Longrightarrow>
   g1 \<noteq> [] \<and> g2 \<noteq> [] \<and> list_all is_digit g1 \<and> list_all is_digit g2"
  unfolding match_header_def Let_def
  by (auto split: option.splits list.splits if_splits simp: list_all_iff dest: set_takeWhileD)

lemma read_chunk_some:
  "read_chunk loads f = (Some (metadata, body), f', printed) \<Longrightarrow>
   \<exists>header f1 g1 g2. readline f = (header, f1) \<and> match_header header = Some (g1, g2) \<and>
     loads (take (int_of_digits g1) f1) = Some metadata \<and>
     body = take (int_of_digits g2) (drop (int_of_digits g1) f1) \<and>
     f' = drop (int_of_digits g2) (drop (int_of_digits g1) f1)"
  unfolding read_chunk_def read_def Let_def
  by (auto split: prod.splits option.splits if_splits)

text \<open>
  The declared lengths of a header read back as the numbers printed, and the loop of
  \<open>StreamingCommand._execute\<close> ends normally on every \<open>None\<close> of \<open>_read_chunk\<close>.
\<close>

lemma chunk_header_lengths:
  "match_header (chunk_header m b) = Some (g1, g2) \<Longrightarrow> int_of_digits g1 = m \<and> int_of_digits g2 = b"
  by (auto simp: match_header_chunk_header int_of_digits_str_of_nat)

lemma streaming_execute_stops:
  "fst (read_chunk loads (ifile st)) = None \<Longrightarrow>
   \<exists>st'. streaming_execute (Suc fuel) loads dumps transform st = Returned st'"
  by (cases "read_chunk loads (ifile st)") auto




lemma metadata_length_eq: "(if b \<noteq> [] then length b else 0) = length b"
  by simp

lemma write_chunk_present:
  "truthy metadata \<Longrightarrow>
   write_chunk dumps f metadata body =
     (None, f\<lparr>delivered := written f @ chunk_header (length (dumps metadata)) (length body)
                 @ dumps metadata @ body,
              buffered := []\<rparr>)"
  by (simp add: write_chunk_def write_def flush_def written_def Let_def)

lemma write_chunk_absent_lenient:
  "\<not> truthy metadata \<Longrightarrow> none_ok f \<Longrightarrow>
   write_chunk dumps f metadata body =
     (None, f\<lparr>delivered := written f @ chunk_header 0 (length body) @ body, buffered := []\<rparr>)"
  by (simp add: write_chunk_def write_def flush_def written_def Let_def)

lemma write_chunk_absent_file:
  "\<not> truthy metadata \<Longrightarrow> \<not> none_ok f \<Longrightarrow>
   write_chunk dumps f metadata body =
     (Some TypeError, f\<lparr>buffered := buffered f @ chunk_header 0 (length body)\<rparr>)"
  by (simp add: write_chunk_def write_def flush_def written_def Let_def)

text \<open>
  Claim C5 at absent metadata, on a Python 2 \<open>file\<close>: \<open>_write_chunk\<close> writes the
  header, then \<open>f.write(None)\<close> raises \<open>TypeError\<close>; the body is not written and the
  stream is not flushed.
\<close>

theorem write_chunk_absent_metadata:
  "write_chunk dumps \<lparr>delivered = [], buffered = [], none_ok = False\<rparr> PNone ''x'' =
     (Some TypeError,
      \<lparr>delivered = [], buffered = ''chunked 1.0,0,1'' @ [CHR 0x0A], none_ok = False\<rparr>)"
  by (simp add: write_chunk_absent_file chunk_header_def str_of_nat.simps digit_char_def)

section \<open>Properties of the command lifecycle and the record writer\<close>

lemma od_set_nonempty: "od_set d k v \<noteq> []"
  by (cases d) (auto split: if_splits)

lemma OrderedDict_snoc: "OrderedDict (xs @ [(k, v)]) = od_set (OrderedDict xs) k v"
  by (simp add: OrderedDict_def)

lemma write_message_frame:
  "message_count (write_message st t m) = message_count st"
  "ofile (write_message st t m) = ofile st"
  "ifile (write_message st t m) = ifile st"
  "stderr (write_message st t m) = stderr st"
  "fieldnames (write_message st t m) = fieldnames st"
  "options (write_message st t m) = options st"
  by (simp_all add: write_message_def)

lemma process_args_frame:
  "process_args args st = (r, st') \<Longrightarrow>
   message_count st' = message_count st \<and> ofile st' = ofile st \<and> ifile st' = ifile st
   \<and> stderr st' = stderr st"
proof (induction args arbitrary: st)
  case Nil
  then show ?case by simp
next
  case (Cons arg args)
  show ?case
  proof (cases arg)
    case (PStr a)
    then show ?thesis using Cons.prems Cons.IH
      by (auto simp: Let_def write_error_def write_message_frame split: if_splits option.splits
          dest!: Cons.IH)
  qed (use Cons.prems in auto)
qed

lemma OrderedDict_snoc_nonempty: "OrderedDict (items @ [(k, v)]) \<noteq> []"
  by (simp add: OrderedDict_snoc od_set_nonempty)

lemma write_chunk_configuration:
  "write_chunk dumps f (PDict (OrderedDict (items @ [(k, v)]))) body =
     (None, f\<lparr>delivered := written f
                 @ chunk_header (length (dumps (PDict (OrderedDict (items @ [(k, v)]))))) (length body)
                 @ dumps (PDict (OrderedDict (items @ [(k, v)]))) @ body,
              buffered := []\<rparr>)"
  by (rule write_chunk_present) (simp add: OrderedDict_snoc_nonempty)

lemma report_missing_frame:
  "message_count (report_missing st) = message_count st"
  "ofile (report_missing st) = ofile st"
  "ifile (report_missing st) = ifile st"
  "stderr (report_missing st) = stderr st"
  "fieldnames (report_missing st) = fieldnames st"
  by (simp_all add: report_missing_def write_error_def write_message_frame split: option.splits)

lemma configure_never_exits:
  "message_count st = 0 \<Longrightarrow> configure dumps cmd metadata st \<noteq> Exited n st'"
  unfolding configure_def Let_def write_chunk_configuration
  by (simp add: report_missing_frame write_def split: sum.splits)

lemma configure_returned:
  "configure dumps cmd metadata st = Returned st' \<Longrightarrow>
   inspector st' = [] \<and> buffered (ofile st') = [CHR 0x0A] \<and>
   (\<exists>md. truthy md \<and>
      delivered (ofile st') = written (ofile st) @ chunk_header (length (dumps md)) 0 @ dumps md)"
proof -
  assume r: "configure dumps cmd metadata st = Returned st'"
  let ?st4 = "report_missing st"
  from r obtain prepared where
    p: "prepare cmd (?st4\<lparr>command_metadata := Some metadata\<rparr>) = Inr prepared"
    and mc: "message_count ?st4 = 0"
    unfolding configure_def Let_def by (auto split: if_splits sum.splits)
  let ?st5 = "prepared\<lparr>ifile := ifile ?st4, ofile := ofile ?st4, stderr := stderr ?st4\<rparr>"
  let ?st6 = "if show_configuration cmd (options ?st5)
      then write_info ?st5 Configuration_settings else ?st5"
  let ?md = "PDict (OrderedDict (configuration_items cmd @ [(''inspector'', PDict (inspector ?st6))]))"
  have o6: "ofile ?st6 = ofile st"
    by (simp add: write_info_def write_message_frame report_missing_frame)
  have "configure dumps cmd metadata st =
      Returned (?st6\<lparr>ofile := (ofile ?st6)\<lparr>delivered := written (ofile ?st6)
        @ chunk_header (length (dumps ?md)) 0 @ dumps ?md, buffered := [CHR 0x0A]\<rparr>, inspector := []\<rparr>)"
    unfolding configure_def Let_def write_chunk_configuration using p mc
    by (simp add: write_def)
  with r have st': "st' = ?st6\<lparr>ofile := (ofile ?st6)\<lparr>delivered := written (ofile ?st6)
        @ chunk_header (length (dumps ?md)) 0 @ dumps ?md, buffered := [CHR 0x0A]\<rparr>, inspector := []\<rparr>"
    by simp
  have t: "truthy ?md" by (simp add: OrderedDict_snoc_nonempty)
  have i: "inspector st' = []" by (subst st') simp
  have b: "buffered (ofile st') = [CHR 0x0A]" by (subst st') simp
  have "delivered (ofile st') = written (ofile ?st6) @ chunk_header (length (dumps ?md)) 0 @ dumps ?md"
    by (subst st') simp
  then have d: "delivered (ofile st') = written (ofile st) @ chunk_header (length (dumps ?md)) 0 @ dumps ?md"
    by (simp only: o6)
  from t d have "\<exists>md. truthy md \<and>
      delivered (ofile st') = written (ofile st) @ chunk_header (length (dumps md)) 0 @ dumps md"
    by blast
  with i b show ?thesis by blast
qed

lemma getinfo_never_exits: "getinfo loads dumps cmd st \<noteq> Exited n st'"
proof
  assume e: "getinfo loads dumps cmd st = Exited n st'"
  then obtain metadata args st2 st3 where
    a: "process_args args st2 = (None, st3)" "message_count st2 = 0"
      "configure dumps cmd metadata st3 = Exited n st'"
    unfolding getinfo_def Let_def
    by (fastforce split: prod.splits option.splits sum.splits)
  from a(1,2) have "message_count st3 = 0" using process_args_frame by fastforce
  then show False using a(3) configure_never_exits by blast
qed

lemma getinfo_returned:
  "getinfo loads dumps cmd st = Returned st' \<Longrightarrow>
   inspector st' = [] \<and> buffered (ofile st') = [CHR 0x0A] \<and>
   (\<exists>md. truthy md \<and>
      delivered (ofile st') = written (ofile st) @ chunk_header (length (dumps md)) 0 @ dumps md)"
proof -
  assume e: "getinfo loads dumps cmd st = Returned st'"
  then obtain metadata args st2 st3 where
    a: "process_args args st2 = (None, st3)" "ofile st2 = ofile st"
      "configure dumps cmd metadata st3 = Returned st'"
    unfolding getinfo_def Let_def
    by (fastforce split: prod.splits option.splits sum.splits)
  from a(1,2) have "ofile st3 = ofile st" using process_args_frame by fastforce
  then show ?thesis using configure_returned [OF a(3)] by simp
qed

lemma read_chunk_getinfo_input:
  "read_chunk loads_min getinfo_input =
     (Some (PDict [(''args'', PList [PStr ''field1'', PStr ''opt1=5'', PStr ''badopt=1''])], []),
      [], [Reading_chunk 39 0])"
  by code_simp

lemma str_of_nat_0: "str_of_nat 0 = ''0''"
  by (simp add: str_of_nat.simps digit_char_def)

lemma process_args_sample:
  "process_args [PStr ''field1'', PStr ''opt1=5'', PStr ''badopt=1'']
     \<lparr>fieldnames = [], options = [opt1], message_count = 0, inspector = [],
      command_metadata = None, ifile = [], ofile = f, stderr = [Reading_chunk 39 0]\<rparr> =
   (None,
     \<lparr>fieldnames = [''field1''], options = [opt1\<lparr>opt_value := Some ''5''\<rparr>], message_count = 0,
      inspector = [(''message.0.ERROR'', PMsg (Unrecognized_option ''badopt'' ''1''))],
      command_metadata = None, ifile = [], ofile = f, stderr = [Reading_chunk 39 0]\<rparr>)"
  by (simp add: split_eq_def options_get_def options_assign_def opt1_def is_digit_def
      write_error_def write_message_def str_of_nat_0 Let_def)

lemma getinfo_unknown_option:
  "getinfo loads_min dumps (plain_command items) (init_run [opt1] getinfo_input lenient) =
     Returned
       \<lparr>fieldnames = [''field1''], options = [opt1\<lparr>opt_value := Some ''5''\<rparr>], message_count = 0,
        inspector = [],
        command_metadata =
          Some (PDict [(''args'', PList [PStr ''field1'', PStr ''opt1=5'', PStr ''badopt=1''])]),
        ifile = [],
        ofile =
          \<lparr>delivered =
             chunk_bytes
               (dumps (PDict (OrderedDict (items @
                  [(''inspector'',
                    PDict [(''message.0.ERROR'', PMsg (Unrecognized_option ''badopt'' ''1''))])]))),
                []),
           buffered = [CHR 0x0A], none_ok = lenient\<rparr>,
        stderr = [Reading_chunk 39 0]\<rparr>"
proof -
  have opts: "options_reset [opt1] = [opt1]"
    by (simp add: options_reset_def opt1_def)
  have missing: "get_missing [opt1\<lparr>opt_value := Some ''5''\<rparr>] = None"
    by (simp add: get_missing_def opt1_def)
  show ?thesis
    unfolding getinfo_def init_run_def
    by (simp add: Let_def read_chunk_getinfo_input args_of_def opts process_args_sample
        configure_def report_missing_def missing plain_command_def
        write_chunk_configuration write_def written_def chunk_bytes_def
        del: process_args.simps)
qed


lemma streaming_execute_eof:
  "ifile st = [] \<Longrightarrow> streaming_execute (Suc fuel) loads dumps transform st = Returned st"
  by (simp add: read_chunk_eof)

text \<open>
  Claim C3 at the tokens \<open>field1\<close>, \<open>opt1=5\<close>, \<open>badopt=1\<close> for a command that
  declares \<open>opt1\<close> only, run as a streaming command whose input ends after the getInfo
  chunk. \<open>process\<close> returns normally: the error for \<open>badopt\<close> is recorded, but
  \<open>_message_count\<close> is still 0, the test \<open>_message_count > 0\<close> fails, and the
  configuration chunk (with the error message in its inspector) is written and the
  execution loop entered.
\<close>

theorem process_unknown_option:
  "process loads_min dumps (plain_command items)
     (streaming_execute (Suc fuel) loads_min dumps transform)
     (init_run [opt1] getinfo_input lenient) =
   Returned
     \<lparr>fieldnames = [''field1''], options = [opt1\<lparr>opt_value := Some ''5''\<rparr>], message_count = 0,
      inspector = [],
      command_metadata =
        Some (PDict [(''args'', PList [PStr ''field1'', PStr ''opt1=5'', PStr ''badopt=1''])]),
      ifile = [],
      ofile =
        \<lparr>delivered =
           chunk_bytes
             (dumps (PDict (OrderedDict (items @
                [(''inspector'',
                  PDict [(''message.0.ERROR'', PMsg (Unrecognized_option ''badopt'' ''1''))])]))),
              []),
         buffered = [CHR 0x0A], none_ok = lenient\<rparr>,
      stderr = [Reading_chunk 39 0]\<rparr>"
  unfolding process_def handle_def
  by (simp add: getinfo_unknown_option streaming_execute_eof del: streaming_execute.simps)

lemma generating_execute_file:
  "\<not> none_ok (ofile st) \<Longrightarrow>
   generating_execute (Suc fuel) dumps generate k st =
     Raised TypeError
       (st\<lparr>ofile := (ofile st)\<lparr>buffered := buffered (ofile st) @ chunk_header 0 (length (generate k))\<rparr>\<rparr>)"
  by (simp add: write_chunk_absent_file)

lemma generating_execute_lenient:
  "none_ok (ofile st) \<Longrightarrow>
   \<exists>st'. generating_execute fuel dumps generate k st = Running st' \<and>
     ifile st' = ifile st \<and> none_ok (ofile st') \<and>
     written (ofile st') =
       written (ofile st) @ concat (map (\<lambda>j. chunk_bytes ([], generate j)) [k..<k + fuel])"
proof (induction fuel arbitrary: k st)
  case 0
  then show ?case by simp
next
  case (Suc fuel)
  define o1 where "o1 = (ofile st)\<lparr>delivered := written (ofile st)
      @ chunk_header 0 (length (generate k)) @ generate k, buffered := []\<rparr>"
  have w: "write_chunk dumps (ofile st) PNone (generate k) = (None, o1)"
    using Suc.prems by (simp add: write_chunk_absent_lenient o1_def)
  have "none_ok (ofile (st\<lparr>ofile := o1\<rparr>))"
    using Suc.prems by (simp add: o1_def)
  from Suc.IH [OF this, of "Suc k"] obtain st' where
    r: "generating_execute fuel dumps generate (Suc k) (st\<lparr>ofile := o1\<rparr>) = Running st'"
      "ifile st' = ifile st" "none_ok (ofile st')"
      "written (ofile st') = written o1 @ concat (map (\<lambda>j. chunk_bytes ([], generate j)) [Suc k..<Suc k + fuel])"
    by auto
  have "[k..<k + Suc fuel] = k # [Suc k..<Suc k + fuel]"
    by (simp add: upt_conv_Cons)
  then have "written (ofile st') =
      written (ofile st) @ concat (map (\<lambda>j. chunk_bytes ([], generate j)) [k..<k + Suc fuel])"
    using r(4) by (simp add: o1_def written_def chunk_bytes_def)
  moreover have "generating_execute (Suc fuel) dumps generate k st = Running st'"
    using w r(1) by simp
  ultimately show ?case using r(2,3) by blast
qed

text \<open>
  Claim C8 on the code. On a Python 2 \<open>file\<close> the first iteration writes the header of
  its chunk and raises \<open>TypeError\<close> at \<open>f.write(None)\<close>: no body is written. On a
  stream that accepts \<open>None\<close> the loop has no exit: after any number of iterations it is
  still running and has written that many chunks. It never reads the input.
\<close>

theorem generating_execute_no_exit:
  "generating_execute (Suc fuel) dumps generate 0 (init_run declared input False) =
     Raised TypeError
       ((init_run declared input False)
          \<lparr>ofile := \<lparr>delivered = [], buffered = chunk_header 0 (length (generate 0)), none_ok = False\<rparr>\<rparr>) \<and>
   (\<exists>st'. generating_execute fuel dumps generate 0 (init_run declared input True) = Running st' \<and>
      ifile st' = input \<and>
      written (ofile st') = concat (map (\<lambda>j. chunk_bytes ([], generate j)) [0..<fuel]))"
proof -
  have a: "generating_execute (Suc fuel) dumps generate 0 (init_run declared input False) =
     Raised TypeError
       ((init_run declared input False)
          \<lparr>ofile := \<lparr>delivered = [], buffered = chunk_header 0 (length (generate 0)), none_ok = False\<rparr>\<rparr>)"
    by (subst generating_execute_file) (simp_all add: init_run_def)
  have "none_ok (ofile (init_run declared input True))"
    by (simp add: init_run_def)
  from generating_execute_lenient [OF this, of fuel dumps generate 0]
  have b: "\<exists>st'. generating_execute fuel dumps generate 0 (init_run declared input True) = Running st' \<and>
      ifile st' = input \<and>
      written (ofile st') = concat (map (\<lambda>j. chunk_bytes ([], generate j)) [0..<fuel])"
    by (auto simp: init_run_def written_def)
  show ?thesis using a b by blast
qed

lemma writer_calls_closed:
  "rw_closed w \<Longrightarrow>
   writer_calls columns_of encode_row w calls = (replicate (length calls) (Some UsageError), w)"
proof (induction calls)
  case Nil
  then show ?case by simp
next
  case (Cons c calls)
  then show ?case
    by (cases c) (simp_all add: write_record_def writer_flush_def)
qed

text \<open>
  The counts that \<open>test_record_writer_with_random_data\<close> asserts: 31 records with
  \<open>maxresultrows = 10\<close> leave three chunks written and one record buffered, and
  \<open>flush(finished=True)\<close> writes the fourth chunk and resets the writer.
\<close>

lemma writer_test_counts:
  "(let w = write_records (map fst) (\<lambda>r cols. concat (map snd r) @ [CHR 0x0A]) (new_writer 10)
              (replicate 31 [(''_serial'', ''0'')])
    in length (rw_chunks w) = 3 \<and> rw_record_count w = 1 \<and> rw_fieldnames w = Some [''_serial''] \<and>
       (case writer_flush w True of
          (r, w') \<Rightarrow> r = None \<and> length (rw_chunks w') = 4 \<and> rw_record_count w' = 0 \<and>
            rw_buffer w' = [] \<and> rw_fieldnames w' = None \<and> rw_inspector w' = [] \<and> rw_closed w'))"
  by code_simp

text \<open>
  Claim C9: once \<open>flush(finished=True)\<close> has closed the writer, \<open>write_record\<close> and
  \<open>flush\<close> fail with a UsageError and leave the writer, and with it the chunks written,
  as it is; so does every sequence of such calls.
\<close>

theorem writer_closed_usage_error:
  "writer_flush w True = (None, w') \<Longrightarrow>
   rw_closed w' \<and>
   write_record columns_of encode_row w' r = (Some UsageError, w') \<and>
   writer_flush w' finished = (Some UsageError, w') \<and>
   writer_calls columns_of encode_row w' calls = (replicate (length calls) (Some UsageError), w')"
proof -
  assume "writer_flush w True = (None, w')"
  then have c: "rw_closed w'"
    by (auto simp: writer_flush_def split: if_splits)
  then show ?thesis
    using writer_calls_closed [OF c, of columns_of encode_row calls]
    by (simp add: write_record_def writer_flush_def)
qed

text \<open>C9 on a writer closed right after its construction.\<close>

theorem writer_closed_usage_error_witness:
  "writer_flush (new_writer 10) True = (None, (new_writer 10)\<lparr>rw_chunks := [([], [], True)], rw_closed := True\<rparr>) \<and>
   write_record (map fst) (\<lambda>r cols. concat (map snd r))
     ((new_writer 10)\<lparr>rw_chunks := [([], [], True)], rw_closed := True\<rparr>) [(''a'', ''1'')]
     = (Some UsageError, (new_writer 10)\<lparr>rw_chunks := [([], [], True)], rw_closed := True\<rparr>) \<and>
   writer_flush ((new_writer 10)\<lparr>rw_chunks := [([], [], True)], rw_closed := True\<rparr>) False
     = (Some UsageError, (new_writer 10)\<lparr>rw_chunks := [([], [], True)], rw_closed := True\<rparr>) \<and>
   writer_calls (map fst) (\<lambda>r cols. concat (map snd r))
     ((new_writer 10)\<lparr>rw_chunks := [([], [], True)], rw_closed := True\<rparr>)
     [Write_record [(''a'', ''1'')], Flush True]
     = ([Some UsageError, Some UsageError], (new_writer 10)\<lparr>rw_chunks := [([], [], True)], rw_closed := True\<rparr>)"
proof -
  have f: "writer_flush (new_writer 10) True
      = (None, (new_writer 10)\<lparr>rw_chunks := [([], [], True)], rw_closed := True\<rparr>)"
    by (simp add: writer_flush_def new_writer_def)
  show ?thesis
    using f writer_closed_usage_error [OF f, of "map fst" "\<lambda>r cols. concat (map snd r)"
        "[(''a'', ''1'')]" False "[Write_record [(''a'', ''1'')], Flush True]"]
    by (simp del: writer_calls.simps)
qed


lemma write_chunk_cases:
  "write_chunk dumps f md body = (raised, f') \<Longrightarrow>
   (raised = None \<and> (\<exists>m. written f' = written f @ chunk_bytes (m, body))) \<or>
   (raised \<noteq> None \<and> written f' = written f @ chunk_header 0 (length body))"
proof -
  assume w: "write_chunk dumps f md body = (raised, f')"
  consider (present) "truthy md" | (lenient) "\<not> truthy md" "none_ok f" | (strict) "\<not> truthy md" "\<not> none_ok f"
    by blast
  then show ?thesis
  proof cases
    case present
    with w have "raised = None \<and> written f' = written f @ chunk_bytes (dumps md, body)"
      by (auto simp: write_chunk_present chunk_bytes_def written_def)
    then show ?thesis by blast
  next
    case lenient
    with w have "raised = None \<and> written f' = written f @ chunk_bytes ([], body)"
      by (auto simp: write_chunk_absent_lenient chunk_bytes_def written_def)
    then show ?thesis by blast
  next
    case strict
    with w show ?thesis
      by (auto simp: write_chunk_absent_file written_def)
  qed
qed

lemma chunks_then_refl: "chunks_then before before"
  unfolding chunks_then_def by (rule exI [of _ "[]"]) simp

lemma chunks_then_header: "chunks_then before (before @ chunk_header 0 n)"
  unfolding chunks_then_def by (rule exI [of _ "[]"]) auto

lemma chunks_then_step:
  "chunks_then (before @ chunk_bytes c) text \<Longrightarrow> chunks_then before text"
proof -
  assume "chunks_then (before @ chunk_bytes c) text"
  then obtain chunks tail where
    t: "text = (before @ chunk_bytes c) @ concat (map chunk_bytes chunks) @ tail"
      "tail = [] \<or> (\<exists>n. tail = chunk_header 0 n)"
    unfolding chunks_then_def by blast
  then have "text = before @ concat (map chunk_bytes (c # chunks)) @ tail" by simp
  with t(2) show ?thesis unfolding chunks_then_def by blast
qed

lemma streaming_execute_written:
  "chunks_then (written (ofile st))
     (written (ofile (state_of (streaming_execute fuel loads dumps transform st))))"
proof (induction fuel arbitrary: st)
  case 0
  show ?case by (simp add: chunks_then_refl)
next
  case (Suc fuel)
  obtain result f1 printed where r: "read_chunk loads (ifile st) = (result, f1, printed)"
    by (cases "read_chunk loads (ifile st)") auto
  define st1 where "st1 = st\<lparr>ifile := f1, stderr := stderr st @ printed\<rparr>"
  have o1: "ofile st1 = ofile st" by (simp add: st1_def)
  show ?case
  proof (cases result)
    case None
    with r show ?thesis by (simp add: chunks_then_refl)
  next
    case (Some mb)
    obtain metadata body where mb: "mb = (metadata, body)" by (cases mb)
    show ?thesis
    proof (cases "transform body")
      case (Inl e)
      with r Some mb show ?thesis by (simp add: chunks_then_refl)
    next
      case (Inr res)
      obtain out finished where res: "res = (out, finished)" by (cases res)
      define md where "md = (if finished then PDict [(''finished'', PBool finished)] else PNone)"
      obtain raised o2 where w: "write_chunk dumps (ofile st1) md out = (raised, o2)"
        by (cases "write_chunk dumps (ofile st1) md out")
      show ?thesis
      proof (cases raised)
        case None
        with write_chunk_cases [OF w] obtain m where
          m: "written o2 = written (ofile st) @ chunk_bytes (m, out)"
          using o1 by auto
        have "streaming_execute (Suc fuel) loads dumps transform st
            = streaming_execute fuel loads dumps transform (st1\<lparr>ofile := o2\<rparr>)"
          using r Some mb Inr res w None by (simp add: st1_def md_def)
        moreover have "chunks_then (written (ofile st) @ chunk_bytes (m, out))
            (written (ofile (state_of (streaming_execute fuel loads dumps transform (st1\<lparr>ofile := o2\<rparr>)))))"
          using Suc.IH [of "st1\<lparr>ofile := o2\<rparr>"] m by simp
        ultimately show ?thesis using chunks_then_step by simp
      next
        case (Some e)
        with write_chunk_cases [OF w] have "written o2 = written (ofile st) @ chunk_header 0 (length out)"
          using o1 by auto
        moreover have "streaming_execute (Suc fuel) loads dumps transform st = Raised e (st1\<lparr>ofile := o2\<rparr>)"
          using r \<open>result = Some mb\<close> mb Inr res w Some by (simp add: st1_def md_def)
        ultimately show ?thesis by (simp add: chunks_then_header)
      qed
    qed
  qed
qed

lemma generating_execute_written:
  "chunks_then (written (ofile st))
     (written (ofile (state_of (generating_execute fuel dumps generate k st))))"
proof (induction fuel arbitrary: k st)
  case 0
  show ?case by (simp add: chunks_then_refl)
next
  case (Suc fuel)
  obtain raised o2 where w: "write_chunk dumps (ofile st) PNone (generate k) = (raised, o2)"
    by (cases "write_chunk dumps (ofile st) PNone (generate k)")
  show ?case
  proof (cases raised)
    case None
    with write_chunk_cases [OF w] obtain m where
      m: "written o2 = written (ofile st) @ chunk_bytes (m, generate k)"
      by auto
    have "generating_execute (Suc fuel) dumps generate k st
        = generating_execute fuel dumps generate (Suc k) (st\<lparr>ofile := o2\<rparr>)"
      using w None by simp
    moreover have "chunks_then (written (ofile st) @ chunk_bytes (m, generate k))
        (written (ofile (state_of (generating_execute fuel dumps generate (Suc k) (st\<lparr>ofile := o2\<rparr>)))))"
      using Suc.IH [of "st\<lparr>ofile := o2\<rparr>" "Suc k"] m by simp
    ultimately show ?thesis using chunks_then_step by simp
  next
    case (Some e)
    with write_chunk_cases [OF w] have "written o2 = written (ofile st) @ chunk_header 0 (length (generate k))"
      by auto
    moreover have "generating_execute (Suc fuel) dumps generate k st = Raised e (st\<lparr>ofile := o2\<rparr>)"
      using w Some by simp
    ultimately show ?thesis by (simp add: chunks_then_header)
  qed
qed

text \<open>
  Claim C10: when the getInfo exchange reaches the execution loop, the output is what it
  was before, the configuration chunk (its header declaring the length of the metadata and
  an empty body), and one newline that belongs to no chunk; the inspector is empty. What
  either execution loop adds after that is whole chunks with nothing between or after
  them (but for a header cut short by an exception).
\<close>

theorem getinfo_extra_newline:
  "getinfo loads dumps cmd st = Returned st1 \<Longrightarrow>
   inspector st1 = [] \<and>
   (\<exists>md. truthy md \<and> written (ofile st1) = written (ofile st) @ chunk_bytes (dumps md, []) @ [CHR 0x0A]) \<and>
   chunks_then (written (ofile st1))
     (written (ofile (state_of (streaming_execute fuel_s loads dumps transform st1)))) \<and>
   chunks_then (written (ofile st1))
     (written (ofile (state_of (generating_execute fuel_g dumps generate k st1))))"
proof -
  assume g: "getinfo loads dumps cmd st = Returned st1"
  from getinfo_returned [OF g] obtain md where
    md: "inspector st1 = []" "buffered (ofile st1) = [CHR 0x0A]" "truthy md"
      "delivered (ofile st1) = written (ofile st) @ chunk_header (length (dumps md)) 0 @ dumps md"
    by blast
  have "written (ofile st1) = written (ofile st) @ chunk_bytes (dumps md, []) @ [CHR 0x0A]"
    using md by (simp add: written_def chunk_bytes_def)
  with md(3) have a: "\<exists>md. truthy md \<and>
      written (ofile st1) = written (ofile st) @ chunk_bytes (dumps md, []) @ [CHR 0x0A]"
    by blast
  show ?thesis
    using md(1) a streaming_execute_written generating_execute_written by blast
qed

text \<open>C10 on the getInfo chunk of the concrete run, for every serializer.\<close>

theorem getinfo_extra_newline_witness:
  "\<forall>dumps. \<exists>st1.
     getinfo loads_min dumps (plain_command []) (init_run [opt1] getinfo_input True) = Returned st1 \<and>
     inspector st1 = [] \<and>
     (\<exists>md. truthy md \<and> written (ofile st1) = chunk_bytes (dumps md, []) @ [CHR 0x0A]) \<and>
     chunks_then (written (ofile st1))
       (written (ofile (state_of (streaming_execute 1 loads_min dumps (\<lambda>body. Inr (body, False)) st1)))) \<and>
     chunks_then (written (ofile st1))
       (written (ofile (state_of (generating_execute 2 dumps (\<lambda>k. ''x'') 0 st1))))"
proof
  fix dumps :: "pyval \<Rightarrow> string"
  obtain st1 where
    g: "getinfo loads_min dumps (plain_command []) (init_run [opt1] getinfo_input True) = Returned st1"
    using getinfo_unknown_option [of dumps "[]" True] by blast
  have w: "written (ofile (init_run [opt1] getinfo_input True)) = []"
    by (simp add: init_run_def written_def)
  show "\<exists>st1.
     getinfo loads_min dumps (plain_command []) (init_run [opt1] getinfo_input True) = Returned st1 \<and>
     inspector st1 = [] \<and>
     (\<exists>md. truthy md \<and> written (ofile st1) = chunk_bytes (dumps md, []) @ [CHR 0x0A]) \<and>
     chunks_then (written (ofile st1))
       (written (ofile (state_of (streaming_execute 1 loads_min dumps (\<lambda>body. Inr (body, False)) st1)))) \<and>
     chunks_then (written (ofile st1))
       (written (ofile (state_of (generating_execute 2 dumps (\<lambda>k. ''x'') 0 st1))))"
    using g w getinfo_extra_newline [OF g, where fuel_s = 1 and transform = "\<lambda>body. Inr (body, False)"
        and fuel_g = 2 and generate = "\<lambda>k. ''x''" and k = 0]
    by auto
qed

end
